theory Spec2Isabelle
  imports Complex_Main
begin

section \<open>PollReader: the data model\<close>

text \<open>
  The program is the Python class \<open>PollReader\<close> of \<open>PollReader.py\<close>. An object holds the
  lines of the CSV file (\<open>raw_data\<close>, as \<open>readlines\<close> returned them) and \<open>data_dict\<close>, a
  dictionary with six fixed keys, each bound to a list. The six keys never change, so the
  dictionary is a record with one list per key.

  Conventions of the embedding:
  \<^item> Python strings are \<open>string\<close>s restricted to ASCII; whitespace is the ASCII part of what
    \<open>str.isspace\<close> accepts.
  \<^item> Python's \<open>int\<close> is \<open>int\<close>.
  \<^item> Python's \<open>float\<close> is modelled by the real number a value denotes: arithmetic is
    exact, and the rounding of IEEE doubles, infinities, NaN and signed zero are outside the
    model. Accordingly \<open>float()\<close> is modelled on decimal literals only, not on the
    spellings of infinity and NaN.
  \<^item> Every exception the code can raise is a value of \<open>py_error\<close>; a method returns its
    result (or the exception) together with the object as the call leaves it.
\<close>

datatype py_error = ValueError | IndexError | ZeroDivisionError

record data_dict =
  month :: "string list"
  date :: "int list"
  sample :: "int list"
  sample_type :: "string list"
  Harris_result :: "real list"
  Trump_result :: "real list"

record PollReader =
  raw_data :: "string list"
  data_dict :: data_dict

text \<open>
  \<open>__init__\<close> reads the file into \<open>raw_data\<close> and binds every key to the empty list. The
  file system is not modelled: the constructor takes the lines that \<open>readlines\<close> returned.
\<close>

definition empty_data_dict :: data_dict where
  "empty_data_dict =
     \<lparr>month = [], date = [], sample = [], sample_type = [],
      Harris_result = [], Trump_result = []\<rparr>"

definition PollReader_init :: "string list \<Rightarrow> PollReader" where
  "PollReader_init lines = \<lparr>raw_data = lines, data_dict = empty_data_dict\<rparr>"

section \<open>The string and number builtins the parser calls\<close>

subsection \<open>\<open>str.strip\<close>, \<open>str.split\<close>\<close>

definition is_space :: "char \<Rightarrow> bool" where
  "is_space c \<longleftrightarrow>
     c \<in> set [CHR 0x09, CHR 0x0A, CHR 0x0B, CHR 0x0C, CHR 0x0D,
              CHR 0x1C, CHR 0x1D, CHR 0x1E, CHR 0x1F, CHR 0x20]"

definition py_strip :: "string \<Rightarrow> string" where
  "py_strip s = rev (dropWhile is_space (rev (dropWhile is_space s)))"

text \<open>\<open>s.split(sep)\<close> with a one-character separator: always at least one field.\<close>

fun py_split_on :: "char \<Rightarrow> string \<Rightarrow> string list" where
  "py_split_on sep [] = [[]]"
| "py_split_on sep (c # cs) =
     (if c = sep then [] # py_split_on sep cs
      else (case py_split_on sep cs of
              [] \<Rightarrow> [[c]]
            | w # ws \<Rightarrow> (c # w) # ws))"

text \<open>\<open>s.split()\<close>: the maximal runs of non-whitespace characters, in order.\<close>

fun py_split_ws :: "string \<Rightarrow> string list" where
  "py_split_ws [] = []"
| "py_split_ws (c # cs) =
     (if is_space c then py_split_ws cs
      else if cs \<noteq> [] \<and> \<not> is_space (hd cs) then
        (case py_split_ws cs of
           [] \<Rightarrow> [[c]]
         | w # ws \<Rightarrow> (c # w) # ws)
      else [c] # py_split_ws cs)"

subsection \<open>\<open>int()\<close> and \<open>float()\<close> on strings\<close>

definition digit_val :: "char \<Rightarrow> nat option" where
  "digit_val c =
     (let k = (of_char c :: nat)
      in if 48 \<le> k \<and> k \<le> 57 then Some (k - 48) else None)"

text \<open>
  A digit part is a digit followed by digits, each optionally preceded by one underscore.
  \<open>digit_run acc n cs\<close> reads the rest of a digit part after \<open>n\<close> digits of value \<open>acc\<close>
  and returns the value and the number of digits.
\<close>

fun digit_run :: "nat \<Rightarrow> nat \<Rightarrow> string \<Rightarrow> (nat \<times> nat) option" where
  "digit_run acc n [] = Some (acc, n)"
| "digit_run acc n [c] =
     (case digit_val c of
        None \<Rightarrow> None
      | Some d \<Rightarrow> Some (10 * acc + d, Suc n))"
| "digit_run acc n (c # c' # cs) =
     (if c = CHR ''_'' then
        (case digit_val c' of
           None \<Rightarrow> None
         | Some d \<Rightarrow> digit_run (10 * acc + d) (Suc n) cs)
      else
        (case digit_val c of
           None \<Rightarrow> None
         | Some d \<Rightarrow> digit_run (10 * acc + d) (Suc n) (c' # cs)))"

definition digit_part :: "string \<Rightarrow> (nat \<times> nat) option" where
  "digit_part s =
     (case s of
        [] \<Rightarrow> None
      | c # cs \<Rightarrow>
          (case digit_val c of
             None \<Rightarrow> None
           | Some d \<Rightarrow> digit_run d 1 cs))"

text \<open>
  \<open>int()\<close> and \<open>float()\<close> skip the whitespace of C's \<open>isspace\<close> around an ASCII
  string, a smaller set than \<open>str.strip\<close> removes.
\<close>

definition is_c_space :: "char \<Rightarrow> bool" where
  "is_c_space c \<longleftrightarrow>
     c \<in> set [CHR 0x09, CHR 0x0A, CHR 0x0B, CHR 0x0C, CHR 0x0D, CHR 0x20]"

definition c_strip :: "string \<Rightarrow> string" where
  "c_strip s = rev (dropWhile is_c_space (rev (dropWhile is_c_space s)))"

text \<open>An optional sign: whether it is a minus, and what follows it.\<close>

definition sign_split :: "string \<Rightarrow> bool \<times> string" where
  "sign_split s =
     (case s of
        [] \<Rightarrow> (False, [])
      | c # cs \<Rightarrow>
          if c = CHR ''-'' then (True, cs)
          else if c = CHR ''+'' then (False, cs)
          else (False, c # cs))"

text \<open>\<open>int(s)\<close> in base 10: surrounding whitespace, a sign, a digit part.\<close>

definition py_int :: "string \<Rightarrow> py_error + int" where
  "py_int s =
     (case sign_split (c_strip s) of
        (neg, body) \<Rightarrow>
          (case digit_part body of
             None \<Rightarrow> Inl ValueError
           | Some (v, n) \<Rightarrow> Inr (if neg then - int v else int v)))"

text \<open>
  \<open>float(s)\<close> on a decimal literal: surrounding whitespace, a sign, then
  \<open>digitpart [. [digitpart]] [exponent]\<close> or \<open>. digitpart [exponent]\<close>, where the exponent
  is \<open>e\<close> or \<open>E\<close>, a sign and a digit part. The value is the real number written.
\<close>

definition is_exp_mark :: "char \<Rightarrow> bool" where
  "is_exp_mark c \<longleftrightarrow> c = CHR ''e'' \<or> c = CHR ''E''"

definition float_exponent :: "string \<Rightarrow> int option" where
  "float_exponent s =
     (case s of
        [] \<Rightarrow> Some 0
      | c # cs \<Rightarrow>
          (case sign_split cs of
             (neg, body) \<Rightarrow>
               (case digit_part body of
                  None \<Rightarrow> None
                | Some (v, n) \<Rightarrow> Some (if neg then - int v else int v))))"

definition float_mantissa :: "string \<Rightarrow> real option" where
  "float_mantissa s =
     (let ip = takeWhile (\<lambda>c. c \<noteq> CHR ''.'') s;
          r = dropWhile (\<lambda>c. c \<noteq> CHR ''.'') s
      in if r = [] then
           (case digit_part ip of
              None \<Rightarrow> None
            | Some (v, n) \<Rightarrow> Some (real v))
         else if tl r = [] then
           (case digit_part ip of
              None \<Rightarrow> None
            | Some (v, n) \<Rightarrow> Some (real v))
         else if ip = [] then
           (case digit_part (tl r) of
              None \<Rightarrow> None
            | Some (w, k) \<Rightarrow> Some (real w / 10 ^ k))
         else
           (case digit_part ip of
              None \<Rightarrow> None
            | Some (v, n) \<Rightarrow>
                (case digit_part (tl r) of
                   None \<Rightarrow> None
                 | Some (w, k) \<Rightarrow> Some (real v + real w / 10 ^ k))))"

definition py_float :: "string \<Rightarrow> py_error + real" where
  "py_float s =
     (case sign_split (c_strip s) of
        (neg, body) \<Rightarrow>
          (case float_mantissa (takeWhile (\<lambda>c. \<not> is_exp_mark c) body) of
             None \<Rightarrow> Inl ValueError
           | Some m \<Rightarrow>
               (case float_exponent (dropWhile (\<lambda>c. \<not> is_exp_mark c) body) of
                  None \<Rightarrow> Inl ValueError
                | Some e \<Rightarrow>
                    Inr ((if neg then - m else m) * (if e < 0 then 1 / 10 ^ nat (- e) else 10 ^ nat e)))))"

section \<open>\<open>build_data_dict\<close>\<close>

text \<open>
  The body of the loop before the six \<open>append\<close>s: every statement that can raise, in the
  order of the source. \<open>parts[k]\<close> raises \<open>IndexError\<close> when the line has no field \<open>k\<close>;
  \<open>int\<close>, \<open>float\<close> and the unpacking of \<open>split()\<close> into two names raise
  \<open>ValueError\<close>.
\<close>

record poll_row =
  row_month :: string
  row_date :: int
  row_sample :: int
  row_sample_type :: string
  row_harris :: real
  row_trump :: real

definition py_index :: "'a list \<Rightarrow> nat \<Rightarrow> py_error + 'a" where
  "py_index xs k = (if k < length xs then Inr (xs ! k) else Inl IndexError)"

definition unpack2 :: "'a list \<Rightarrow> py_error + ('a \<times> 'a)" where
  "unpack2 xs = (case xs of [a, b] \<Rightarrow> Inr (a, b) | _ \<Rightarrow> Inl ValueError)"

text \<open>Sequencing of statements that can raise: the first exception ends the body.\<close>

definition py_bind :: "py_error + 'a \<Rightarrow> ('a \<Rightarrow> py_error + 'b) \<Rightarrow> py_error + 'b" where
  "py_bind r f = (case r of Inl e \<Rightarrow> Inl e | Inr v \<Rightarrow> f v)"

definition parse_row :: "string \<Rightarrow> py_error + poll_row" where
  "parse_row i =
     (let parts = py_split_on CHR '','' (py_strip i) in
      py_bind (py_index parts 0) (\<lambda>month_v.
      py_bind (py_index parts 1) (\<lambda>p1.
      py_bind (py_int p1) (\<lambda>date_v.
      py_bind (py_index parts 2) (\<lambda>p2.
      py_bind (unpack2 (py_split_ws (py_strip p2))) (\<lambda>(sample_num_str, sample_type_v).
      py_bind (py_int sample_num_str) (\<lambda>sample_v.
      py_bind (py_index parts 3) (\<lambda>p3.
      py_bind (py_float p3) (\<lambda>harris.
      py_bind (py_index parts 4) (\<lambda>p4.
      py_bind (py_float p4) (\<lambda>trump.
        Inr \<lparr>row_month = month_v, row_date = date_v, row_sample = sample_v,
             row_sample_type = sample_type_v, row_harris = harris,
             row_trump = trump\<rparr>)))))))))))"

text \<open>The six \<open>append\<close>s at the end of the loop body.\<close>

definition append_row :: "data_dict \<Rightarrow> poll_row \<Rightarrow> data_dict" where
  "append_row d r =
     \<lparr>month = month d @ [row_month r],
      date = date d @ [row_date r],
      sample = sample d @ [row_sample r],
      sample_type = sample_type d @ [row_sample_type r],
      Harris_result = Harris_result d @ [row_harris r],
      Trump_result = Trump_result d @ [row_trump r]\<rparr>"

text \<open>
  The loop over \<open>raw_data[1:]\<close>. The lists are updated in place, so an exception leaves
  the dictionary as the rows before it made it.
\<close>

fun build_rows :: "string list \<Rightarrow> data_dict \<Rightarrow> (py_error + unit) \<times> data_dict" where
  "build_rows [] d = (Inr (), d)"
| "build_rows (i # rest) d =
     (case parse_row i of
        Inl e \<Rightarrow> (Inl e, d)
      | Inr r \<Rightarrow> build_rows rest (append_row d r))"

definition build_data_dict :: "PollReader \<Rightarrow> (py_error + unit) \<times> PollReader" where
  "build_data_dict self =
     (case build_rows (drop 1 (raw_data self)) (data_dict self) of
        (res, d) \<Rightarrow> (res, self\<lparr>data_dict := d\<rparr>))"

section \<open>The queries\<close>

subsection \<open>Builtins: \<open>max\<close>, \<open>sum\<close>, \<open>/\<close>, slices, the format \<open>.1f\<close>\<close>

text \<open>
  \<open>max(xs)\<close> raises \<open>ValueError\<close> on the empty list; otherwise it starts from the first
  item and replaces the current maximum by each later item that compares greater.
\<close>

definition py_max :: "real list \<Rightarrow> py_error + real" where
  "py_max xs =
     (case xs of
        [] \<Rightarrow> Inl ValueError
      | x # rest \<Rightarrow> Inr (foldl (\<lambda>maxval item. if item > maxval then item else maxval) x rest))"

text \<open>\<open>sum(xs)\<close> adds the items to 0 from left to right.\<close>

definition py_sum :: "real list \<Rightarrow> real" where
  "py_sum xs = foldl (\<lambda>acc x. acc + x) 0 xs"

text \<open>\<open>x / n\<close> for a float and an int: \<open>ZeroDivisionError\<close> when \<open>n\<close> is 0.\<close>

definition py_truediv :: "real \<Rightarrow> int \<Rightarrow> py_error + real" where
  "py_truediv x n = (if n = 0 then Inl ZeroDivisionError else Inr (x / of_int n))"

definition py_len :: "'a list \<Rightarrow> int" where
  "py_len xs = int (length xs)"

text \<open>
  The slices \<open>xs[:n]\<close> and \<open>xs[-n:]\<close> for \<open>n \<ge> 0\<close>: a bound beyond the list is clipped,
  and the negative start counts from the end, clipped at the front.
\<close>

definition slice_to :: "int \<Rightarrow> 'a list \<Rightarrow> 'a list" where
  "slice_to n xs = take (nat (min n (py_len xs))) xs"

definition slice_from_end :: "int \<Rightarrow> 'a list \<Rightarrow> 'a list" where
  "slice_from_end n xs = drop (nat (max (py_len xs - n) 0)) xs"

text \<open>
  The conditional expression \<open>sum(v) / len(v) if v else 0.0\<close> that both averaging
  queries use.
\<close>

definition avg_or_zero :: "real list \<Rightarrow> py_error + real" where
  "avg_or_zero v = (if v \<noteq> [] then py_truediv (py_sum v) (py_len v) else Inr 0)"

text \<open>
  The format \<open>.1f\<close>: the sign of the value, then its magnitude rounded to tenths (a tie
  goes to the even tenth), written as the integer part, a point and one digit.
\<close>

fun show_nat :: "nat \<Rightarrow> string" where
  "show_nat n =
     (if n < 10 then [char_of (48 + n)]
      else show_nat (n div 10) @ [char_of (48 + n mod 10)])"

definition round_half_even :: "real \<Rightarrow> int" where
  "round_half_even x =
     (let f = \<lfloor>x\<rfloor>; r = x - of_int f
      in if r < 1 / 2 then f
         else if r > 1 / 2 then f + 1
         else if even f then f else f + 1)"

definition format_1f :: "real \<Rightarrow> string" where
  "format_1f x =
     (let t = nat (round_half_even (\<bar>x\<bar> * 10))
      in (if x < 0 then ''-'' else []) @ show_nat (t div 10) @ ''.'' @ show_nat (t mod 10))"

subsection \<open>\<open>highest_polling_candidate\<close>\<close>

definition highest_polling_candidate :: "PollReader \<Rightarrow> (py_error + string) \<times> PollReader" where
  "highest_polling_candidate self =
     (py_bind (py_max (Harris_result (data_dict self))) (\<lambda>max_h.
      py_bind (py_max (Trump_result (data_dict self))) (\<lambda>max_t.
        if \<bar>max_h - max_t\<bar> < 1 / 10 ^ 12 then
          Inr (''EVEN '' @ format_1f (max_h * 100) @ ''%'')
        else if max_h > max_t then
          Inr (''Harris '' @ format_1f (max_h * 100) @ ''%'')
        else
          Inr (''Trump '' @ format_1f (max_t * 100) @ ''%''))),
      self)"

subsection \<open>\<open>likely_voter_polling_average\<close>\<close>

text \<open>
  The loop over \<open>zip\<close> of the three columns, which stops with the shortest of them; the
  two local lists grow by \<open>append\<close>.
\<close>

fun lv_loop :: "(string \<times> real \<times> real) list \<Rightarrow> real list \<times> real list \<Rightarrow> real list \<times> real list" where
  "lv_loop [] (h_vals, t_vals) = (h_vals, t_vals)"
| "lv_loop ((st, h, t) # rest) (h_vals, t_vals) =
     (if st = ''LV'' then lv_loop rest (h_vals @ [h], t_vals @ [t])
      else lv_loop rest (h_vals, t_vals))"

definition zip3 :: "'a list \<Rightarrow> 'b list \<Rightarrow> 'c list \<Rightarrow> ('a \<times> 'b \<times> 'c) list" where
  "zip3 xs ys zs = zip xs (zip ys zs)"

definition likely_voter_polling_average ::
  "PollReader \<Rightarrow> (py_error + real \<times> real) \<times> PollReader" where
  "likely_voter_polling_average self =
     (case lv_loop (zip3 (sample_type (data_dict self)) (Harris_result (data_dict self))
                         (Trump_result (data_dict self))) ([], []) of
        (h_vals, t_vals) \<Rightarrow>
          (py_bind (avg_or_zero h_vals) (\<lambda>h_avg.
           py_bind (avg_or_zero t_vals) (\<lambda>t_avg.
             Inr (h_avg, t_avg))),
           self))"

subsection \<open>\<open>polling_history_change\<close>\<close>

definition polling_history_change ::
  "PollReader \<Rightarrow> (py_error + real \<times> real) \<times> PollReader" where
  "polling_history_change self =
     (let h = Harris_result (data_dict self);
          t = Trump_result (data_dict self);
          latest_h = slice_to 30 h;
          latest_t = slice_to 30 t;
          earliest_h = slice_from_end 30 h;
          earliest_t = slice_from_end 30 t
      in (py_bind (avg_or_zero latest_h) (\<lambda>latest_h_avg.
          py_bind (avg_or_zero earliest_h) (\<lambda>earliest_h_avg.
          py_bind (avg_or_zero latest_t) (\<lambda>latest_t_avg.
          py_bind (avg_or_zero earliest_t) (\<lambda>earliest_t_avg.
            Inr (latest_h_avg - earliest_h_avg, latest_t_avg - earliest_t_avg))))),
          self))"

section \<open>Notions of the specification\<close>

text \<open>
  The words the specification uses for what the queries and the parser compute, written
  down independently of the code above.
\<close>

text \<open>The arithmetic mean of a list, and 0 for the empty list.\<close>

definition mean_or_zero :: "real list \<Rightarrow> real" where
  "mean_or_zero xs = (if xs = [] then 0 else sum_list xs / real (length xs))"

text \<open>The rows of the table whose sample type is the likely-voter code.\<close>

definition likely_voter_rows :: "data_dict \<Rightarrow> (string \<times> real \<times> real) list" where
  "likely_voter_rows d =
     filter (\<lambda>(st, h, t). st = ''LV'')
       (zip3 (sample_type d) (Harris_result d) (Trump_result d))"

text \<open>The first \<open>n\<close> and the last \<open>n\<close> rows, or all rows if there are fewer.\<close>

definition first_rows :: "nat \<Rightarrow> 'a list \<Rightarrow> 'a list" where
  "first_rows n xs = (if length xs < n then xs else take n xs)"

definition last_rows :: "nat \<Rightarrow> 'a list \<Rightarrow> 'a list" where
  "last_rows n xs = (if length xs < n then xs else drop (length xs - n) xs)"

text \<open>The comma fields of a line, and the lines that hold nothing but whitespace.\<close>

definition csv_fields :: "string \<Rightarrow> string list" where
  "csv_fields l = py_split_on CHR '','' (py_strip l)"

definition blank_line :: "string \<Rightarrow> bool" where
  "blank_line l \<longleftrightarrow> py_strip l = []"

definition non_blank_lines :: "string list \<Rightarrow> string list" where
  "non_blank_lines ls = filter (\<lambda>l. \<not> blank_line l) ls"

text \<open>
  A malformed data line: fewer than five comma fields, a date that is no integer, a third
  field that does not split into exactly two whitespace-separated tokens, a sample size
  that is no integer, or a result field that is no number.
\<close>

definition malformed_line :: "string \<Rightarrow> bool" where
  "malformed_line l \<longleftrightarrow>
     length (csv_fields l) < 5 \<or>
     isl (py_int (csv_fields l ! 1)) \<or>
     length (py_split_ws (py_strip (csv_fields l ! 2))) \<noteq> 2 \<or>
     isl (py_int (hd (py_split_ws (py_strip (csv_fields l ! 2))))) \<or>
     isl (py_float (csv_fields l ! 3)) \<or>
     isl (py_float (csv_fields l ! 4))"

section \<open>Example inputs\<close>

text \<open>Lines of a file in the format of the program's data, and some that break it.\<close>

definition header_line :: string where
  "header_line = ''month,date,sample,Harris result,Trump result\<newline>''"

definition lv_line :: string where
  "lv_line = ''October,15,1500 LV,0.57,0.532\<newline>''"

definition rv_line :: string where
  "rv_line = ''October,14,800 RV,0.5,0.46\<newline>''"

definition percent_line :: string where
  "percent_line = ''October,15,1500 LV,57.0,53.2\<newline>''"



definition blank_text_line :: string where
  "blank_text_line = ''\<newline>''"

text \<open>A reader whose table has the given sample types and results.\<close>

definition table_of :: "string list \<Rightarrow> real list \<Rightarrow> real list \<Rightarrow> PollReader" where
  "table_of sts hs ts =
     \<lparr>raw_data = [],
      data_dict = \<lparr>month = [], date = [], sample = [], sample_type = sts,
                   Harris_result = hs, Trump_result = ts\<rparr>\<rparr>"

section \<open>Facts about the builtins\<close>



lemma foldl_add: "foldl (\<lambda>acc x. acc + x) (a::real) xs = a + sum_list xs"
  by (induction xs arbitrary: a) simp_all

lemma py_sum_sum_list: "py_sum xs = sum_list xs"
  by (simp add: py_sum_def foldl_add)

lemma slice_to_take: "slice_to 30 xs = take 30 xs"
  by (simp add: slice_to_def py_len_def min_def)

lemma slice_from_end_drop: "slice_from_end 30 xs = drop (length xs - 30) xs"
proof -
  have "nat (max (int (length xs) - 30) 0) = length xs - 30" by simp
  then show ?thesis by (simp add: slice_from_end_def py_len_def)
qed

lemma avg_or_zero_mean: "avg_or_zero v = Inr (mean_or_zero v)"
  by (simp add: avg_or_zero_def mean_or_zero_def py_truediv_def py_len_def py_sum_sum_list)

lemma first_rows_slice: "slice_to 30 xs = first_rows 30 xs"
  by (simp add: slice_to_take first_rows_def)

lemma last_rows_slice: "slice_from_end 30 xs = last_rows 30 xs"
  by (simp add: slice_from_end_drop last_rows_def)

lemma round_half_even_near: "\<bar>of_int (round_half_even y) - y\<bar> \<le> 1 / 2"
  unfolding round_half_even_def Let_def by (auto simp: abs_if) linarith+

lemma round_half_even_nonneg: "0 \<le> y \<Longrightarrow> 0 \<le> round_half_even y"
  unfolding round_half_even_def Let_def by (auto intro: add_nonneg_nonneg)

lemma show_nat_digit: "d < 10 \<Longrightarrow> show_nat d = [char_of (48 + d)]"
  by simp

text \<open>
  The format writes an optional minus, the digits of a natural number, a point and exactly
  one digit, and the number written is within one twentieth of the magnitude of the value.
\<close>

lemma format_1f_shape:
  "\<exists>q d. d < 10 \<and>
     format_1f x = (if x < 0 then ''-'' else []) @ show_nat q @ ''.'' @ [char_of (48 + d)] \<and>
     \<bar>\<bar>x\<bar> - (real q + real d / 10)\<bar> \<le> 1 / 20"
proof -
  define t where "t = nat (round_half_even (\<bar>x\<bar> * 10))"
  have t: "real t = of_int (round_half_even (\<bar>x\<bar> * 10))"
    using round_half_even_nonneg [of "\<bar>x\<bar> * 10"] by (simp add: t_def)
  have d: "t mod 10 < 10" by simp
  have "real t = real (10 * (t div 10) + t mod 10)" by simp
  also have "\<dots> = 10 * real (t div 10) + real (t mod 10)"
    by (simp only: of_nat_add of_nat_mult of_nat_numeral)
  finally have eq: "real (t div 10) + real (t mod 10) / 10 = real t / 10" by simp
  have near: "\<bar>\<bar>x\<bar> - real t / 10\<bar> \<le> 1 / 20"
    using round_half_even_near [of "\<bar>x\<bar> * 10"] unfolding t by (simp add: abs_if split: if_splits)
  have val: "\<bar>\<bar>x\<bar> - (real (t div 10) + real (t mod 10) / 10)\<bar> \<le> 1 / 20"
    by (simp only: eq near)
  have str: "format_1f x = (if x < 0 then ''-'' else []) @ show_nat (t div 10) @ ''.'' @ [char_of (48 + t mod 10)]"
    unfolding format_1f_def Let_def t_def [symmetric] using show_nat_digit [OF d] by simp
  from d str val show ?thesis by blast
qed

lemma py_int_error: "py_int s = Inl e \<Longrightarrow> e = ValueError"
  by (auto simp: py_int_def split: prod.splits option.splits)

lemma py_float_error: "py_float s = Inl e \<Longrightarrow> e = ValueError"
  by (auto simp: py_float_def split: prod.splits option.splits)

lemma length_2_iff: "length xs = 2 \<longleftrightarrow> (\<exists>a b. xs = [a, b])"
  by (cases xs; simp; cases "tl xs"; auto)

lemma unpack2_Inr: "length xs = 2 \<Longrightarrow> unpack2 xs = Inr (hd xs, xs ! 1)"
  by (auto simp: length_2_iff unpack2_def)

lemma unpack2_Inl: "length xs \<noteq> 2 \<Longrightarrow> unpack2 xs = Inl ValueError"
  by (auto simp: length_2_iff unpack2_def split: list.splits)

lemma py_bind_Inl: "py_bind (Inl e) f = Inl e"
  by (simp add: py_bind_def)

lemma py_bind_Inr: "py_bind (Inr v) f = f v"
  by (simp add: py_bind_def)

section \<open>Facts about the parser\<close>

text \<open>A line parses exactly when it is not malformed, and then into its own fields.\<close>

lemma parse_row_well_formed:
  assumes "\<not> malformed_line l"
  shows "parse_row l =
           Inr \<lparr>row_month = csv_fields l ! 0,
                row_date = projr (py_int (csv_fields l ! 1)),
                row_sample = projr (py_int (hd (py_split_ws (py_strip (csv_fields l ! 2))))),
                row_sample_type = py_split_ws (py_strip (csv_fields l ! 2)) ! 1,
                row_harris = projr (py_float (csv_fields l ! 3)),
                row_trump = projr (py_float (csv_fields l ! 4))\<rparr>"
proof -
  let ?p = "csv_fields l"
  from assms have len: "5 \<le> length ?p"
    and d: "\<not> isl (py_int (?p ! 1))"
    and u: "length (py_split_ws (py_strip (?p ! 2))) = 2"
    and s: "\<not> isl (py_int (hd (py_split_ws (py_strip (?p ! 2)))))"
    and h: "\<not> isl (py_float (?p ! 3))"
    and t: "\<not> isl (py_float (?p ! 4))"
    by (auto simp: malformed_line_def)
  from d obtain dv where dv: "py_int (?p ! 1) = Inr dv" by (cases "py_int (?p ! 1)") auto
  from s obtain sv where sv: "py_int (hd (py_split_ws (py_strip (?p ! 2)))) = Inr sv"
    by (cases "py_int (hd (py_split_ws (py_strip (?p ! 2))))") auto
  from h obtain hv where hv: "py_float (?p ! 3) = Inr hv" by (cases "py_float (?p ! 3)") auto
  from t obtain tv where tv: "py_float (?p ! 4) = Inr tv" by (cases "py_float (?p ! 4)") auto
  from len have idx: "py_index ?p 0 = Inr (?p ! 0)" "py_index ?p 1 = Inr (?p ! 1)"
    "py_index ?p 2 = Inr (?p ! 2)" "py_index ?p 3 = Inr (?p ! 3)" "py_index ?p 4 = Inr (?p ! 4)"
    by (auto simp: py_index_def)
  show ?thesis
    unfolding parse_row_def Let_def csv_fields_def [symmetric]
    using idx dv sv hv tv unpack2_Inr [OF u] by (simp add: py_bind_Inr)
qed

lemma parse_row_malformed:
  assumes "malformed_line l"
  shows "parse_row l = Inl IndexError \<or> parse_row l = Inl ValueError"
proof -
  have "parse_row l = Inl e \<Longrightarrow> e = IndexError \<or> e = ValueError" for e
    unfolding parse_row_def Let_def py_bind_def py_index_def unpack2_def
    by (auto split: sum.splits if_splits list.splits dest: py_int_error py_float_error)
  moreover have "\<exists>e. parse_row l = Inl e"
  proof (rule ccontr)
    assume "\<not> ?thesis"
    then obtain r where r: "parse_row l = Inr r" by (cases "parse_row l") auto
    let ?p = "csv_fields l"
    from r have "\<not> malformed_line l"
      unfolding parse_row_def Let_def csv_fields_def [symmetric] py_bind_def py_index_def
        malformed_line_def unpack2_def
      by (auto split: sum.splits if_splits list.splits)
    with assms show False by simp
  qed
  ultimately show ?thesis by blast
qed

lemma parse_row_Inr_well_formed: "parse_row l = Inr r \<Longrightarrow> \<not> malformed_line l"
  using parse_row_malformed [of l] by auto

lemma blank_line_IndexError: "blank_line l \<Longrightarrow> parse_row l = Inl IndexError"
  by (simp add: blank_line_def parse_row_def py_index_def py_bind_def)

lemma foldl_append_row_columns:
  "month (foldl append_row d rows) = month d @ map row_month rows"
  "date (foldl append_row d rows) = date d @ map row_date rows"
  "sample (foldl append_row d rows) = sample d @ map row_sample rows"
  "sample_type (foldl append_row d rows) = sample_type d @ map row_sample_type rows"
  "Harris_result (foldl append_row d rows) = Harris_result d @ map row_harris rows"
  "Trump_result (foldl append_row d rows) = Trump_result d @ map row_trump rows"
  by (induction rows arbitrary: d) (simp_all add: append_row_def)


lemma build_rows_success:
  "build_rows ls d = (Inr (), d') \<Longrightarrow>
   \<exists>rows. map parse_row ls = map Inr rows \<and> d' = foldl append_row d rows"
proof (induction ls arbitrary: d)
  case Nil
  then show ?case by simp
next
  case (Cons l ls)
  from Cons.prems obtain r where r: "parse_row l = Inr r"
    and rest: "build_rows ls (append_row d r) = (Inr (), d')"
    by (cases "parse_row l") auto
  from Cons.IH [OF rest] obtain rows where
    "map parse_row ls = map Inr rows" "d' = foldl append_row (append_row d r) rows"
    by blast
  then have "map parse_row (l # ls) = map Inr (r # rows) \<and> d' = foldl append_row d (r # rows)"
    by (simp add: r)
  then show ?case by blast
qed



text \<open>The example lines, parsed.\<close>

lemma lv_line_row:
  "parse_row lv_line =
     Inr \<lparr>row_month = ''October'', row_date = 15, row_sample = 1500,
          row_sample_type = ''LV'', row_harris = 57 / 100, row_trump = 532 / 1000\<rparr>"
  by code_simp

lemma rv_line_row:
  "parse_row rv_line =
     Inr \<lparr>row_month = ''October'', row_date = 14, row_sample = 800,
          row_sample_type = ''RV'', row_harris = 1 / 2, row_trump = 46 / 100\<rparr>"
  by code_simp

lemma percent_line_row:
  "parse_row percent_line =
     Inr \<lparr>row_month = ''October'', row_date = 15, row_sample = 1500,
          row_sample_type = ''LV'', row_harris = 57, row_trump = 532 / 10\<rparr>"
  by code_simp



lemma blank_text_line_row: "parse_row blank_text_line = Inl IndexError"
  by code_simp

lemma blank_text_line_blank: "blank_line blank_text_line"
  by code_simp

lemma lines_not_blank: "\<not> blank_line header_line" "\<not> blank_line lv_line" "\<not> blank_line rv_line"
  by code_simp+

section \<open>Facts about the queries\<close>

lemma lv_loop_filter:
  "lv_loop rows (hv, tv) =
     (hv @ map (\<lambda>(st, h, t). h) (filter (\<lambda>(st, h, t). st = ''LV'') rows),
      tv @ map (\<lambda>(st, h, t). t) (filter (\<lambda>(st, h, t). st = ''LV'') rows))"
  by (induction rows "(hv, tv)" arbitrary: hv tv rule: lv_loop.induct) simp_all

lemma lv_rows_empty: "''LV'' \<notin> set sts \<Longrightarrow> filter (\<lambda>(st, h, t). st = ''LV'') (zip3 sts hs ts) = []"
  unfolding zip3_def by (auto simp: filter_empty_conv dest: set_zip_leftD)

section \<open>The claims\<close>

subsection \<open>C1: the highest polling candidate\<close>



subsection \<open>C2: the likely-voter average\<close>

text \<open>
  C2. For every table, \<open>likely_voter_polling_average\<close> returns the pair of the
  arithmetic mean of the Harris results and the arithmetic mean of the Trump results of
  exactly the rows whose sample type is \<open>LV\<close>, each mean computed over its own filtered
  list (and 0 where no row is left, see C6). The table is returned as it was.
\<close>

theorem likely_voter_polling_average_mean:
  "likely_voter_polling_average self =
     (Inr (mean_or_zero (map (\<lambda>(st, h, t). h) (likely_voter_rows (data_dict self))),
           mean_or_zero (map (\<lambda>(st, h, t). t) (likely_voter_rows (data_dict self)))),
      self)"
  by (simp add: likely_voter_polling_average_def lv_loop_filter avg_or_zero_mean py_bind_def
      likely_voter_rows_def)

text \<open>
  The example of the specification: rows (LV, 0.50, 0.45), (RV, 0.60, 0.40) and
  (LV, 0.48, 0.47) give the averages 0.49 and 0.46.
\<close>

theorem likely_voter_polling_average_mean_witness:
  "likely_voter_polling_average (table_of [''LV'', ''RV'', ''LV''] [0.50, 0.60, 0.48] [0.45, 0.40, 0.47]) =
     (Inr (0.49, 0.46), table_of [''LV'', ''RV'', ''LV''] [0.50, 0.60, 0.48] [0.45, 0.40, 0.47])"
  using likely_voter_polling_average_mean [of "table_of [''LV'', ''RV'', ''LV''] [0.50, 0.60, 0.48] [0.45, 0.40, 0.47]"]
  by (simp add: table_of_def likely_voter_rows_def zip3_def mean_or_zero_def)

subsection \<open>C3: the change of the polling history\<close>

text \<open>
  C3. For every table, \<open>polling_history_change\<close> takes the first 30 rows (all rows if
  there are fewer) as the latest slice and the last 30 rows (all rows if there are fewer)
  as the earliest slice, and returns the mean of the Harris results over the latest slice
  minus their mean over the earliest slice, and the same for the Trump results. It raises
  no error, whatever the number of rows, and returns the table as it was.
\<close>

theorem polling_history_change_slices:
  "polling_history_change self =
     (Inr (mean_or_zero (first_rows 30 (Harris_result (data_dict self)))
             - mean_or_zero (last_rows 30 (Harris_result (data_dict self))),
           mean_or_zero (first_rows 30 (Trump_result (data_dict self)))
             - mean_or_zero (last_rows 30 (Trump_result (data_dict self)))),
      self)"
  by (simp add: polling_history_change_def Let_def avg_or_zero_mean py_bind_def
      first_rows_slice last_rows_slice)

text \<open>
  A table of 61 Harris rows, where the row in the middle belongs to neither slice, and 60
  Trump rows: the first 30 Harris results are 0.55 and the last 30 are 0.50, which gives
  the change +0.05.
\<close>

theorem polling_history_change_slices_witness:
  "polling_history_change (table_of [] (replicate 30 0.55 @ [0.90] @ replicate 30 0.50) (replicate 30 0.40 @ replicate 30 0.46)) =
     (Inr (0.05, - 0.06), table_of [] (replicate 30 0.55 @ [0.90] @ replicate 30 0.50) (replicate 30 0.40 @ replicate 30 0.46))"
  using polling_history_change_slices [of "table_of [] (replicate 30 0.55 @ [0.90] @ replicate 30 0.50) (replicate 30 0.40 @ replicate 30 0.46)"]
  by (simp add: table_of_def first_rows_def last_rows_def mean_or_zero_def sum_list_replicate)

subsection \<open>C4: the number of parsed rows\<close>

text \<open>
  C4, as amended. For every input on which \<open>build_data_dict\<close>, called once on a new
  reader, succeeds, the six sequences all have the length of the input minus the header
  line, and none of the lines after the header is blank, so that this is also the number
  of non-blank data lines. A blank line is not skipped: it is parsed like any other line
  and raises \<open>IndexError\<close>.
\<close>

theorem build_data_dict_row_count:
  assumes "build_data_dict (PollReader_init lines) = (Inr (), self')"
  shows "length (month (data_dict self')) = length lines - 1 \<and>
         length (date (data_dict self')) = length lines - 1 \<and>
         length (sample (data_dict self')) = length lines - 1 \<and>
         length (sample_type (data_dict self')) = length lines - 1 \<and>
         length (Harris_result (data_dict self')) = length lines - 1 \<and>
         length (Trump_result (data_dict self')) = length lines - 1 \<and>
         length (non_blank_lines (drop 1 lines)) = length lines - 1"
proof -
  obtain res d where b: "build_rows (drop 1 lines) empty_data_dict = (res, d)"
    by (cases "build_rows (drop 1 lines) empty_data_dict")
  with assms have res: "res = Inr ()" and d: "data_dict self' = d"
    by (auto simp: build_data_dict_def PollReader_init_def)
  from build_rows_success [OF b [unfolded res]] obtain rows where
    rows: "map parse_row (drop 1 lines) = map Inr rows" and d': "d = foldl append_row empty_data_dict rows"
    by blast
  from rows have len: "length rows = length lines - 1"
    by (metis length_drop length_map)
  have "\<not> blank_line l" if "l \<in> set (drop 1 lines)" for l
  proof
    assume "blank_line l"
    then have "parse_row l = Inl IndexError" by (rule blank_line_IndexError)
    moreover from that rows have "parse_row l \<in> set (map Inr rows)"
      by (metis image_eqI list.set_map)
    ultimately show False by auto
  qed
  then have "filter (\<lambda>l. \<not> blank_line l) (drop 1 lines) = drop 1 lines"
    by (simp add: filter_id_conv)
  then show ?thesis
    by (simp add: d d' foldl_append_row_columns empty_data_dict_def len non_blank_lines_def)
qed

theorem build_data_dict_row_count_witness:
  "fst (build_data_dict (PollReader_init [header_line, lv_line, rv_line])) = Inr () \<and>
   length (month (data_dict (snd (build_data_dict (PollReader_init [header_line, lv_line, rv_line]))))) = 2 \<and>
   length (Trump_result (data_dict (snd (build_data_dict (PollReader_init [header_line, lv_line, rv_line]))))) = 2 \<and>
   length (non_blank_lines (drop 1 [header_line, lv_line, rv_line])) = 2"
proof -
  have ok: "fst (build_data_dict (PollReader_init [header_line, lv_line, rv_line])) = Inr ()"
    by (simp add: build_data_dict_def PollReader_init_def lv_line_row rv_line_row split: prod.split)
  then have "build_data_dict (PollReader_init [header_line, lv_line, rv_line]) =
      (Inr (), snd (build_data_dict (PollReader_init [header_line, lv_line, rv_line])))"
    by (metis prod.collapse)
  from build_data_dict_row_count [OF this] ok show ?thesis by simp
qed

text \<open>
  The claim as stated fails on a file with a blank line between the header and a
  well-formed data line: the file has two non-blank lines, so one row is expected, but
  the parse stops at the blank line with \<open>IndexError\<close> and no row is stored.
\<close>

theorem build_data_dict_blank_line_counterexample:
  "fst (build_data_dict (PollReader_init [header_line, blank_text_line, lv_line])) = Inl IndexError \<and>
   Harris_result (data_dict (snd (build_data_dict (PollReader_init [header_line, blank_text_line, lv_line])))) = [] \<and>
   length (non_blank_lines [header_line, blank_text_line, lv_line]) - 1 = 1"
  by (simp add: build_data_dict_def PollReader_init_def blank_text_line_row empty_data_dict_def
      non_blank_lines_def blank_text_line_blank lines_not_blank)

subsection \<open>C5: the stored results\<close>

text \<open>
  C5, as amended. For every input on which \<open>build_data_dict\<close> succeeds, the Harris and
  Trump results it appends are exactly the numbers that \<open>float\<close> reads from the fourth
  and fifth comma fields of the data lines, in order: nothing is divided by 100 and no
  range is checked. The stored values are fractions in [0,1] exactly when the file writes
  them so; 0.57 is stored as 0.57 (shown as 57.0%), and 57.0 is stored as 57.0.
\<close>

theorem build_data_dict_stores_csv_values:
  assumes "build_data_dict self = (Inr (), self')"
  shows "\<exists>hs ts.
           Harris_result (data_dict self') = Harris_result (data_dict self) @ hs \<and>
           Trump_result (data_dict self') = Trump_result (data_dict self) @ ts \<and>
           map (\<lambda>l. py_float (csv_fields l ! 3)) (drop 1 (raw_data self)) = map Inr hs \<and>
           map (\<lambda>l. py_float (csv_fields l ! 4)) (drop 1 (raw_data self)) = map Inr ts"
proof -
  obtain res d where b: "build_rows (drop 1 (raw_data self)) (data_dict self) = (res, d)"
    by (cases "build_rows (drop 1 (raw_data self)) (data_dict self)")
  with assms have res: "res = Inr ()" and d: "data_dict self' = d"
    by (auto simp: build_data_dict_def)
  from build_rows_success [OF b [unfolded res]] obtain rows where
    rows: "map parse_row (drop 1 (raw_data self)) = map Inr rows"
    and d': "d = foldl append_row (data_dict self) rows"
    by blast
  have fields: "map (\<lambda>l. py_float (csv_fields l ! 3)) ls = map Inr (map row_harris rs) \<and>
                map (\<lambda>l. py_float (csv_fields l ! 4)) ls = map Inr (map row_trump rs)"
    if "map parse_row ls = map Inr rs" for ls rs
    using that
  proof (induction ls arbitrary: rs)
    case Nil
    then show ?case by simp
  next
    case (Cons l ls)
    then obtain r rs' where rs: "rs = r # rs'" and r: "parse_row l = Inr r"
      and rest: "map parse_row ls = map Inr rs'"
      by (cases rs) auto
    from r have wf: "\<not> malformed_line l" by (rule parse_row_Inr_well_formed)
    from wf have nh: "\<not> isl (py_float (csv_fields l ! 3))" and nt: "\<not> isl (py_float (csv_fields l ! 4))"
      by (auto simp: malformed_line_def)
    from parse_row_well_formed [OF wf] r nh nt
    have "py_float (csv_fields l ! 3) = Inr (row_harris r)" "py_float (csv_fields l ! 4) = Inr (row_trump r)"
      by (cases "py_float (csv_fields l ! 3)"; cases "py_float (csv_fields l ! 4)"; auto)+
    with Cons.IH [OF rest] show ?case by (simp add: rs)
  qed
  from fields [OF rows] show ?thesis
    by (intro exI [of _ "map row_harris rows"] exI [of _ "map row_trump rows"])
       (simp add: d d' foldl_append_row_columns)
qed

theorem build_data_dict_stores_csv_values_witness:
  "fst (build_data_dict (PollReader_init [header_line, lv_line])) = Inr () \<and>
   py_float (csv_fields lv_line ! 3) = Inr (57 / 100) \<and>
   py_float (csv_fields lv_line ! 4) = Inr (532 / 1000) \<and>
   Harris_result (data_dict (snd (build_data_dict (PollReader_init [header_line, lv_line])))) = [57 / 100] \<and>
   Trump_result (data_dict (snd (build_data_dict (PollReader_init [header_line, lv_line])))) = [532 / 1000]"
proof -
  let ?S = "PollReader_init [header_line, lv_line]"
  have ok: "fst (build_data_dict ?S) = Inr ()"
    by (simp add: build_data_dict_def PollReader_init_def lv_line_row split: prod.split)
  then have run: "build_data_dict ?S = (Inr (), snd (build_data_dict ?S))"
    by (metis prod.collapse)
  have f: "py_float (csv_fields lv_line ! 3) = Inr (57 / 100)"
    "py_float (csv_fields lv_line ! 4) = Inr (532 / 1000)"
    by code_simp+
  have e: "Harris_result (data_dict ?S) = []" "Trump_result (data_dict ?S) = []"
    "drop 1 (raw_data ?S) = [lv_line]"
    by (simp_all add: PollReader_init_def empty_data_dict_def)
  from build_data_dict_stores_csv_values [OF run] obtain hs ts where
    h: "Harris_result (data_dict (snd (build_data_dict ?S))) = Harris_result (data_dict ?S) @ hs"
    and t: "Trump_result (data_dict (snd (build_data_dict ?S))) = Trump_result (data_dict ?S) @ ts"
    and mh: "map (\<lambda>l. py_float (csv_fields l ! 3)) (drop 1 (raw_data ?S)) = map Inr hs"
    and mt: "map (\<lambda>l. py_float (csv_fields l ! 4)) (drop 1 (raw_data ?S)) = map Inr ts"
    by blast
  from mh have "[Inr (57 / 100) :: py_error + real] = map Inr hs" unfolding e by (simp only: list.map f)
  then have hs: "hs = [57 / 100]" by auto
  from mt have "[Inr (532 / 1000) :: py_error + real] = map Inr ts" unfolding e by (simp only: list.map f)
  then have ts: "ts = [532 / 1000]" by auto
  from h t show ?thesis unfolding hs ts e using ok f by simp
qed

text \<open>
  The claim as stated fails on the data line \<open>October,15,1500 LV,57.0,53.2\<close>: the
  stored results are 57 and 53.2, neither 0.57 and 0.532 nor within [0,1].
\<close>

theorem build_data_dict_percent_counterexample:
  "fst (build_data_dict (PollReader_init [header_line, percent_line])) = Inr () \<and>
   Harris_result (data_dict (snd (build_data_dict (PollReader_init [header_line, percent_line])))) = [57] \<and>
   Trump_result (data_dict (snd (build_data_dict (PollReader_init [header_line, percent_line])))) = [532 / 10]"
  by (simp add: build_data_dict_def PollReader_init_def percent_line_row empty_data_dict_def append_row_def)

subsection \<open>C6: no likely-voter rows\<close>

text \<open>
  C6. For every table in which no row has the sample type \<open>LV\<close>, the table without
  rows included, \<open>likely_voter_polling_average\<close> returns exactly (0.0, 0.0): it raises
  no error, and no division takes place.
\<close>

theorem likely_voter_polling_average_no_lv:
  assumes "''LV'' \<notin> set (sample_type (data_dict self))"
  shows "likely_voter_polling_average self = (Inr (0, 0), self)"
  using assms
  by (simp add: likely_voter_polling_average_def lv_loop_filter lv_rows_empty avg_or_zero_def py_bind_def)

theorem likely_voter_polling_average_no_lv_witness:
  "''LV'' \<notin> set (sample_type (data_dict (table_of [''RV'', ''A''] [0.5, 0.6] [0.4, 0.3]))) \<and>
   likely_voter_polling_average (table_of [''RV'', ''A''] [0.5, 0.6] [0.4, 0.3]) =
     (Inr (0, 0), table_of [''RV'', ''A''] [0.5, 0.6] [0.4, 0.3]) \<and>
   ''LV'' \<notin> set (sample_type (data_dict (PollReader_init [header_line]))) \<and>
   likely_voter_polling_average (PollReader_init [header_line]) =
     (Inr (0, 0), PollReader_init [header_line])"
proof -
  have a: "''LV'' \<notin> set (sample_type (data_dict (table_of [''RV'', ''A''] [0.5, 0.6] [0.4, 0.3])))"
    by (simp add: table_of_def)
  have b: "''LV'' \<notin> set (sample_type (data_dict (PollReader_init [header_line])))"
    by (simp add: PollReader_init_def empty_data_dict_def)
  from likely_voter_polling_average_no_lv [OF a] likely_voter_polling_average_no_lv [OF b] a b
  show ?thesis by simp
qed

subsection \<open>C7: malformed lines\<close>




subsection \<open>C8: the table after a failed parse\<close>




subsection \<open>C9: the queries leave the table unchanged\<close>

text \<open>
  C9. For every table, each of the three queries \<open>highest_polling_candidate\<close>,
  \<open>likely_voter_polling_average\<close> and \<open>polling_history_change\<close> leaves the object, and
  so all six sequences, unchanged, whether the query returns a result or raises.
\<close>

theorem queries_leave_table_unchanged:
  "snd (highest_polling_candidate self) = self \<and>
   snd (likely_voter_polling_average self) = self \<and>
   snd (polling_history_change self) = self"
  by (simp add: highest_polling_candidate_def likely_voter_polling_average_def
      polling_history_change_def Let_def split: prod.split)

text \<open>
  A table with one row, on which all three queries succeed, and the table without rows,
  on which \<open>highest_polling_candidate\<close> raises.
\<close>

theorem queries_leave_table_unchanged_witness:
  "snd (highest_polling_candidate (table_of [''LV''] [0.5] [0.4])) = table_of [''LV''] [0.5] [0.4] \<and>
   snd (likely_voter_polling_average (table_of [''LV''] [0.5] [0.4])) = table_of [''LV''] [0.5] [0.4] \<and>
   snd (polling_history_change (table_of [''LV''] [0.5] [0.4])) = table_of [''LV''] [0.5] [0.4] \<and>
   snd (highest_polling_candidate (PollReader_init [])) = PollReader_init []"
  using queries_leave_table_unchanged [of "table_of [''LV''] [0.5] [0.4]"]
    queries_leave_table_unchanged [of "PollReader_init []"]
  by simp

subsection \<open>C10: the history change of the empty table\<close>

text \<open>
  C10. On the table with zero parsed rows, \<open>polling_history_change\<close> raises no error
  and returns exactly (0.0, 0.0), each empty slice having the average 0.0, whereas
  \<open>highest_polling_candidate\<close> fails there (with \<open>ValueError\<close>, from \<open>max\<close>).
\<close>

theorem polling_history_change_empty_table:
  assumes "data_dict self = empty_data_dict"
  shows "polling_history_change self = (Inr (0, 0), self) \<and>
         fst (highest_polling_candidate self) = Inl ValueError"
  using assms
  by (simp add: polling_history_change_def highest_polling_candidate_def empty_data_dict_def
      slice_to_def slice_from_end_def avg_or_zero_def py_max_def py_bind_def)

theorem polling_history_change_empty_table_witness:
  "data_dict (PollReader_init [header_line]) = empty_data_dict \<and>
   polling_history_change (PollReader_init [header_line]) = (Inr (0, 0), PollReader_init [header_line]) \<and>
   fst (highest_polling_candidate (PollReader_init [header_line])) = Inl ValueError"
proof -
  have a: "data_dict (PollReader_init [header_line]) = empty_data_dict"
    by (simp add: PollReader_init_def)
  from polling_history_change_empty_table [OF a] a show ?thesis by simp
qed

end
